theory Spec2Isabelle
  imports Main "HOL-Library.Word"
begin

section \<open>Bytes and the struct format of the Ethernet header\<close>

type_synonym byte = "8 word"
type_synonym bytes = "byte list"

text \<open>
  The exceptions the code can raise, one constructor for each raise site:
  \<^item> \<open>NotEnoughBytes n\<close>: \<^verbatim>\<open>raise Exception("Not enough bytes ({}) to reconstruct an
    Ethernet object".format(len(raw)))\<close> in \<^verbatim>\<open>from_bytes\<close> (the spec's FormatError);
  \<^item> \<open>NoMapping t\<close>: \<^verbatim>\<open>raise Exception("No mapping for ethertype {} to a packet header
    class".format(self.ethertype))\<close> in \<^verbatim>\<open>next_header_class\<close> (the spec's
    UnrecognizedProtocolError);
  \<^item> \<open>ValueError v\<close>: raised by the enumeration lookup \<^verbatim>\<open>EtherType(value)\<close> when no member
    has the value \<open>v\<close> (the spec's DomainError);
  \<^item> \<open>struct_error\<close>: raised by \<^verbatim>\<open>struct.pack\<close> when an \<^verbatim>\<open>H\<close> argument is outside
    \<open>0..65535\<close>.
\<close>

datatype error = NotEnoughBytes nat | NoMapping int | ValueError int | struct_error

text \<open>
  \<^verbatim>\<open>struct.pack\<close> for the item \<^verbatim>\<open>6s\<close>: a byte string is cut to six bytes or padded with
  null bytes up to six.
\<close>

definition pack_6s :: "bytes \<Rightarrow> bytes" where
  "pack_6s b = take 6 b @ replicate (6 - length b) 0"

text \<open>
  \<^verbatim>\<open>struct.pack\<close> for the item \<^verbatim>\<open>H\<close> in network byte order (\<^verbatim>\<open>!\<close>): an unsigned 16-bit
  integer, most significant byte first; a value out of range raises \<^verbatim>\<open>struct.error\<close>.
\<close>

definition pack_H :: "int \<Rightarrow> error + bytes" where
  "pack_H v = (if 0 \<le> v \<and> v \<le> 65535
               then Inr [word_of_int (v div 256), word_of_int (v mod 256)]
               else Inl struct_error)"

text \<open>\<^verbatim>\<open>struct.unpack\<close> for the item \<^verbatim>\<open>H\<close> in network byte order, on two bytes.\<close>

definition unpack_H :: "bytes \<Rightarrow> int" where
  "unpack_H b = uint (b ! 0) * 256 + uint (b ! 1)"

section \<open>The collaborators of \<^verbatim>\<open>ethernet.py\<close>\<close>

text \<open>
  Modelled from the spec: the class \<^verbatim>\<open>EthAddr\<close> of \<^verbatim>\<open>switchyard.lib.address\<close>, which is
  not part of the sources at hand. The spec speaks of 6-byte hardware addresses; an
  address is the byte string it holds (\<^verbatim>\<open>packed\<close>), \<^verbatim>\<open>EthAddr(b)\<close> on a raw byte string
  holds \<open>b\<close>, and two addresses are equal when their bytes are. An address is valid
  when it holds six bytes.
\<close>

datatype EthAddr = EthAddr (packed: bytes)

definition valid_EthAddr :: "EthAddr \<Rightarrow> bool" where
  "valid_EthAddr a = (length (packed a) = 6)"

text \<open>
  Modelled from the spec: the enumeration \<^verbatim>\<open>EtherType\<close> of
  \<^verbatim>\<open>switchyard.lib.packet.ethcommon\<close>, which is not part of the sources at hand. The
  spec calls it a closed set of known constants and does not list them, so the
  declaration is a parameter: \<open>members\<close> are the values of the members, and \<open>IP\<close> and
  \<open>ARP\<close> are the values of the two members that \<^verbatim>\<open>ethernet.py\<close> names. A member of a
  Python enumeration is determined by its value (two names with one value are one
  member), so a member is represented by its value.
\<close>

record EtherType_enum =
  members :: "int list"
  IP :: int
  ARP :: int

text \<open>
  The enumeration lookup \<^verbatim>\<open>EtherType(value)\<close>: the member with that value, or
  \<^verbatim>\<open>ValueError\<close>. Applied to a member it returns this member.
\<close>

definition EtherType :: "EtherType_enum \<Rightarrow> int \<Rightarrow> error + int" where
  "EtherType E v = (if v \<in> set (members E) then Inr v else Inl (ValueError v))"

text \<open>The class \<^verbatim>\<open>Arp\<close> of \<^verbatim>\<open>switchyard.lib.packet.arp\<close> is used as a dictionary value only.\<close>

datatype header_class = Arp

text \<open>
  \<^verbatim>\<open>EtherTypeClasses = { EtherType.IP: None, EtherType.ARP: Arp }\<close>: a dictionary whose
  values are a class or \<^verbatim>\<open>None\<close>. The outer option says whether the key is present; a
  later entry of the display replaces an earlier one with the same key.
\<close>

definition EtherTypeClasses :: "EtherType_enum \<Rightarrow> int \<rightharpoonup> header_class option" where
  "EtherTypeClasses E = [IP E \<mapsto> None, ARP E \<mapsto> Some Arp]"

section \<open>The class \<^verbatim>\<open>Ethernet\<close>\<close>

record Ethernet =
  src :: EthAddr
  dst :: EthAddr
  ethertype :: int

text \<open>\<^verbatim>\<open>__PACKFMT__ = '!6s6sH'\<close> and \<^verbatim>\<open>__MINSIZE__ = struct.calcsize(__PACKFMT__)\<close>.\<close>

definition calcsize_PACKFMT :: nat where
  "calcsize_PACKFMT = 6 + 6 + 2"

definition MINSIZE :: nat where
  "MINSIZE = calcsize_PACKFMT"

text \<open>
  \<^verbatim>\<open>__init__(self, src, dst, ethertype)\<close>: the addresses are wrapped by \<^verbatim>\<open>EthAddr\<close>, the
  type is looked up in the enumeration.
\<close>

definition Ethernet_init :: "EtherType_enum \<Rightarrow> bytes \<Rightarrow> bytes \<Rightarrow> int \<Rightarrow> error + Ethernet" where
  "Ethernet_init E s d t =
     (case EtherType E t of
        Inl e \<Rightarrow> Inl e
      | Inr m \<Rightarrow> Inr \<lparr>src = EthAddr s, dst = EthAddr d, ethertype = m\<rparr>)"

text \<open>\<^verbatim>\<open>size(self)\<close>: \<^verbatim>\<open>struct.calcsize(Ethernet.__PACKFMT__)\<close>.\<close>

definition size_Ethernet :: "Ethernet \<Rightarrow> nat" where
  "size_Ethernet h = calcsize_PACKFMT"

text \<open>
  The setters. Each returns the outcome of the call together with the header after the
  call; an exception leaves the header as the statements before the raise made it.
\<close>

definition set_src :: "Ethernet \<Rightarrow> bytes \<Rightarrow> Ethernet" where
  "set_src h v = h\<lparr>src := EthAddr v\<rparr>"

definition set_dst :: "Ethernet \<Rightarrow> bytes \<Rightarrow> Ethernet" where
  "set_dst h v = h\<lparr>dst := EthAddr v\<rparr>"

definition set_ethertype :: "EtherType_enum \<Rightarrow> Ethernet \<Rightarrow> int \<Rightarrow> (error + unit) \<times> Ethernet" where
  "set_ethertype E h v =
     (case EtherType E v of
        Inl e \<Rightarrow> (Inl e, h)
      | Inr m \<Rightarrow> (Inr (), h\<lparr>ethertype := m\<rparr>))"

text \<open>
  \<^verbatim>\<open>to_bytes\<close>: \<^verbatim>\<open>struct.pack('!6s6sH', src.packed, dst.packed, ethertype.value)\<close>.
\<close>

definition to_bytes :: "Ethernet \<Rightarrow> error + bytes" where
  "to_bytes h =
     (case pack_H (ethertype h) of
        Inl e \<Rightarrow> Inl e
      | Inr t \<Rightarrow> Inr (pack_6s (packed (src h)) @ pack_6s (packed (dst h)) @ t))"

text \<open>
  \<^verbatim>\<open>from_bytes(self, raw)\<close>: the length guard, the three fields unpacked from the first
  \<^verbatim>\<open>__MINSIZE__\<close> bytes, then the three assignments in the order of the source; the
  result is the rest of the input, or the exception, with the header as it is when the
  call ends.
\<close>

definition from_bytes :: "EtherType_enum \<Rightarrow> Ethernet \<Rightarrow> bytes \<Rightarrow> (error + bytes) \<times> Ethernet" where
  "from_bytes E h raw =
     (if length raw < MINSIZE then (Inl (NotEnoughBytes (length raw)), h)
      else
        let b = take MINSIZE raw;
            s = take 6 b;
            d = take 6 (drop 6 b);
            t = unpack_H (drop 12 b);
            h1 = set_src h s;
            h2 = set_dst h1 d
        in case set_ethertype E h2 t of
             (Inl e, h3) \<Rightarrow> (Inl e, h3)
           | (Inr u, h3) \<Rightarrow> (Inr (drop MINSIZE raw), h3))"

text \<open>
  \<^verbatim>\<open>next_header_class\<close> writes to the console; a call returns its outcome and the lines
  it printed. The one line it can print is the warning that no class parses the type.
\<close>

datatype console_line = Warning_no_class int

definition next_header_class :: "EtherType_enum \<Rightarrow> Ethernet \<Rightarrow> (error + header_class option) \<times> console_line list" where
  "next_header_class E h =
     (if EtherTypeClasses E (ethertype h) = None then (Inl (NoMapping (ethertype h)), [])
      else
        let cls = (case EtherTypeClasses E (ethertype h) of None \<Rightarrow> None | Some c \<Rightarrow> c)
        in if cls = None then (Inr cls, [Warning_no_class (ethertype h)])
           else (Inr cls, []))"

text \<open>\<^verbatim>\<open>__eq__\<close>: the three fields compared.\<close>

definition Ethernet_eq :: "Ethernet \<Rightarrow> Ethernet \<Rightarrow> bool" where
  "Ethernet_eq h other = (src h = src other \<and> dst h = dst other \<and> ethertype h = ethertype other)"

text \<open>
  A field state is legally constructible when both addresses are valid and the type is
  a member of the enumeration, as the constructor and the setter of \<open>ethertype\<close> make it.
\<close>

definition legal :: "EtherType_enum \<Rightarrow> Ethernet \<Rightarrow> bool" where
  "legal E h = (valid_EthAddr (src h) \<and> valid_EthAddr (dst h) \<and> ethertype h \<in> set (members E))"

text \<open>
  An instance of the enumeration for evaluation: the two members the source names,
  with the values assigned to IPv4 and ARP, and a third member (IPv6) that has no
  entry in \<open>EtherTypeClasses\<close>.
\<close>

definition EtherType_example :: EtherType_enum where
  "EtherType_example = \<lparr>members = [0x0800, 0x0806, 0x86dd], IP = 0x0800, ARP = 0x0806\<rparr>"

definition header_example :: Ethernet where
  "header_example = \<lparr>src = EthAddr [0, 0x1b, 0x21, 0x3a, 0x4c, 0x5d],
                      dst = EthAddr [0xff, 0xff, 0xff, 0xff, 0xff, 0xff],
                      ethertype = 0x0806\<rparr>"

definition header_zero :: Ethernet where
  "header_zero = \<lparr>src = EthAddr [0, 0, 0, 0, 0, 0], dst = EthAddr [0, 0, 0, 0, 0, 0],
                   ethertype = 0x0800\<rparr>"

text \<open>Fourteen bytes whose last two, \<open>0x1234\<close>, are not the value of a member.\<close>

definition raw_unknown_type :: bytes where
  "raw_unknown_type = [1, 2, 3, 4, 5, 6, 7, 8, 9, 10, 11, 12, 0x12, 0x34]"

section \<open>The ICMP-style header\<close>

text \<open>
  Modelled from the spec: the class \<^verbatim>\<open>ICMP\<close> of \<^verbatim>\<open>switchyard.lib.packet\<close>, its type
  enumeration and its subtype payloads, of which only the tests are among the sources
  at hand. The spec gives: a primary type from a fixed enumeration; a table from the
  type to the class of the payload; a fresh default payload whenever the type is set;
  the encoding as type byte, code byte, 16-bit big-endian checksum, then the bytes of
  the payload; the checksum as the one's complement of the sum, with end-around carry,
  of the 16-bit big-endian words of the encoding with a zero checksum field. The two
  types whose encodings the spec lists are modelled: echo request (type 8; identifier
  and sequence, taken as 16 bits each since the default body has four bytes, then the
  data) and source quench (type 4; a reserved body of four zero bytes). The spec does
  not say how a last odd byte enters the sum; it is taken as the high byte of a word.
\<close>

datatype ICMPType = SourceQuench | EchoRequest

fun ICMPType_value :: "ICMPType \<Rightarrow> byte" where
  "ICMPType_value SourceQuench = 4"
| "ICMPType_value EchoRequest = 8"

datatype SubtypePayload =
    ICMPSourceQuench
  | ICMPEchoRequest (ident: "16 word") (seqno: "16 word") (payload: bytes)

fun default_payload :: "ICMPType \<Rightarrow> SubtypePayload" where
  "default_payload SourceQuench = ICMPSourceQuench"
| "default_payload EchoRequest = ICMPEchoRequest 0 0 []"

definition be16 :: "16 word \<Rightarrow> bytes" where
  "be16 w = [word_of_nat (unat w div 256), word_of_nat (unat w mod 256)]"

fun payload_to_bytes :: "SubtypePayload \<Rightarrow> bytes" where
  "payload_to_bytes ICMPSourceQuench = [0, 0, 0, 0]"
| "payload_to_bytes (ICMPEchoRequest i s d) = be16 i @ be16 s @ d"

record ICMP =
  icmptype :: ICMPType
  icmpcode :: byte
  icmpdata :: SubtypePayload

definition ICMP_init :: ICMP where
  "ICMP_init = \<lparr>icmptype = EchoRequest, icmpcode = 0, icmpdata = default_payload EchoRequest\<rparr>"

definition set_icmptype :: "ICMP \<Rightarrow> ICMPType \<Rightarrow> ICMP" where
  "set_icmptype h t = h\<lparr>icmptype := t, icmpdata := default_payload t\<rparr>"

fun words16 :: "bytes \<Rightarrow> nat list" where
  "words16 (hi # lo # rest) = (unat hi * 256 + unat lo) # words16 rest"
| "words16 [b] = [unat b * 256]"
| "words16 [] = []"

definition add_carry :: "nat \<Rightarrow> nat \<Rightarrow> nat" where
  "add_carry a b = (let s = a + b in if s < 65536 then s else s mod 65536 + s div 65536)"

definition checksum :: "bytes \<Rightarrow> 16 word" where
  "checksum bs = word_of_nat (65535 - foldl add_carry 0 (words16 bs))"

definition ICMP_to_bytes :: "ICMP \<Rightarrow> bytes" where
  "ICMP_to_bytes h =
     (let body = payload_to_bytes (icmpdata h);
          zeroed = [ICMPType_value (icmptype h), icmpcode h] @ be16 0 @ body
      in [ICMPType_value (icmptype h), icmpcode h] @ be16 (checksum zeroed) @ body)"

section \<open>Facts about the struct items and the two directions of the codec\<close>

lemma length_pack_6s: "length (pack_6s b) = 6"
  by (simp add: pack_6s_def)

lemma pack_6s_id: "length b = 6 \<Longrightarrow> pack_6s b = b"
  by (simp add: pack_6s_def)

lemma uint_hi: "0 \<le> v \<Longrightarrow> v \<le> 65535 \<Longrightarrow> uint (word_of_int (v div 256) :: byte) = v div 256"
  by (simp add: uint_word_of_int take_bit_eq_mod)

lemma uint_lo: "uint (word_of_int (v mod 256) :: byte) = v mod 256"
  by (simp add: uint_word_of_int take_bit_eq_mod)

lemma unpack_pack_H:
  "0 \<le> v \<Longrightarrow> v \<le> 65535 \<Longrightarrow> unpack_H [word_of_int (v div 256), word_of_int (v mod 256)] = v"
  by (simp add: unpack_H_def uint_hi uint_lo)

lemma to_bytes_Inr:
  "0 \<le> ethertype h \<Longrightarrow> ethertype h \<le> 65535 \<Longrightarrow>
   to_bytes h = Inr (pack_6s (packed (src h)) @ pack_6s (packed (dst h)) @
      [word_of_int (ethertype h div 256), word_of_int (ethertype h mod 256)])"
  by (simp add: to_bytes_def pack_H_def)

lemma from_bytes_short:
  "length raw < 14 \<Longrightarrow> from_bytes E h raw = (Inl (NotEnoughBytes (length raw)), h)"
  by (simp add: from_bytes_def MINSIZE_def calcsize_PACKFMT_def)

lemma from_bytes_long:
  "14 \<le> length raw \<Longrightarrow>
   from_bytes E h raw =
     (if unpack_H (drop 12 (take 14 raw)) \<in> set (members E)
      then (Inr (drop 14 raw),
            \<lparr>src = EthAddr (take 6 raw), dst = EthAddr (take 6 (drop 6 raw)),
             ethertype = unpack_H (drop 12 (take 14 raw))\<rparr>)
      else (Inl (ValueError (unpack_H (drop 12 (take 14 raw)))),
            \<lparr>src = EthAddr (take 6 raw), dst = EthAddr (take 6 (drop 6 raw)),
             ethertype = ethertype h\<rparr>))"
  by (simp add: from_bytes_def MINSIZE_def calcsize_PACKFMT_def Let_def set_src_def
      set_dst_def set_ethertype_def EtherType_def take_drop min_def)

lemma Ethernet_init_member:
  "Ethernet_init E s d t = Inr h \<Longrightarrow> ethertype h \<in> set (members E)"
  by (auto simp: Ethernet_init_def EtherType_def split: if_splits)

lemma nonmember_exists:
  assumes "length (ms :: int list) < 65536"
  shows "\<exists>v. 0 \<le> v \<and> v \<le> 65535 \<and> v \<notin> set ms"
proof (rule ccontr)
  assume "\<not> ?thesis"
  then have sub: "{0..65535} \<subseteq> set ms" by auto
  have "card {0..65535::int} \<le> card (set ms)"
    by (rule card_mono [OF _ sub]) simp
  also have "\<dots> \<le> length ms" by (rule card_length)
  finally show False using assms by simp
qed

lemma source_quench_bytes:
  "ICMP_to_bytes (set_icmptype ICMP_init SourceQuench) =
     [0x04, 0x00, 0xfb, 0xff, 0x00, 0x00, 0x00, 0x00]"
  by (simp add: ICMP_to_bytes_def ICMP_init_def set_icmptype_def be16_def checksum_def
      add_carry_def)

section \<open>The wire format\<close>

text \<open>
  Claim C8. For every Ethernet header, \<^verbatim>\<open>to_bytes()\<close> produces exactly 14 bytes: two
  6-byte hardware address fields (the source address first, as the code packs them)
  followed by a 2-byte type field, most significant byte first; \<^verbatim>\<open>size()\<close> returns 14.
  The type of a header is a member of \<^verbatim>\<open>EtherType\<close>, whose declaration is a parameter
  here; the hypothesis says that its value is a 16-bit number, which the struct item
  \<^verbatim>\<open>H\<close> requires. An address of six bytes fills its field as it is.
\<close>

theorem to_bytes_wire_format:
  assumes "0 \<le> ethertype h" and "ethertype h \<le> 65535"
  shows "to_bytes h = Inr (pack_6s (packed (src h)) @ pack_6s (packed (dst h)) @
            [word_of_int (ethertype h div 256), word_of_int (ethertype h mod 256)])
    \<and> length (pack_6s (packed (src h))) = 6 \<and> length (pack_6s (packed (dst h))) = 6
    \<and> uint (word_of_int (ethertype h div 256) :: byte) = ethertype h div 256
    \<and> uint (word_of_int (ethertype h mod 256) :: byte) = ethertype h mod 256
    \<and> (valid_EthAddr (src h) \<longrightarrow> pack_6s (packed (src h)) = packed (src h))
    \<and> (valid_EthAddr (dst h) \<longrightarrow> pack_6s (packed (dst h)) = packed (dst h))
    \<and> size_Ethernet h = 14"
  using assms
  by (simp add: to_bytes_Inr length_pack_6s uint_hi uint_lo pack_6s_id valid_EthAddr_def
      size_Ethernet_def calcsize_PACKFMT_def)

theorem to_bytes_wire_format_witness:
  "0 \<le> ethertype header_example \<and> ethertype header_example \<le> 65535
   \<and> valid_EthAddr (src header_example) \<and> valid_EthAddr (dst header_example)
   \<and> to_bytes header_example =
       Inr [0, 0x1b, 0x21, 0x3a, 0x4c, 0x5d, 0xff, 0xff, 0xff, 0xff, 0xff, 0xff, 0x08, 0x06]
   \<and> size_Ethernet header_example = 14"
  using to_bytes_wire_format [of header_example]
  by (simp add: header_example_def valid_EthAddr_def pack_6s_def)

section \<open>Size\<close>

text \<open>
  Claim C2. For every Ethernet header in every reachable field state, \<^verbatim>\<open>size()\<close> equals
  the length of the byte sequence that \<^verbatim>\<open>to_bytes()\<close> returns. In a reachable state the
  type is a member of \<^verbatim>\<open>EtherType\<close>; the hypothesis is that its value is a 16-bit
  number, so that \<^verbatim>\<open>to_bytes()\<close> returns.
\<close>

theorem size_eq_length_to_bytes:
  assumes "0 \<le> ethertype h" and "ethertype h \<le> 65535"
  shows "\<exists>bs. to_bytes h = Inr bs \<and> size_Ethernet h = length bs"
  using assms by (simp add: to_bytes_Inr length_pack_6s size_Ethernet_def calcsize_PACKFMT_def)

theorem size_eq_length_to_bytes_witness:
  "0 \<le> ethertype header_example \<and> ethertype header_example \<le> 65535
   \<and> (\<exists>bs. to_bytes header_example = Inr bs \<and> size_Ethernet header_example = length bs)"
  using size_eq_length_to_bytes [of header_example]
  by (simp add: header_example_def)

section \<open>Round trip\<close>

text \<open>
  Claim C1. For every Ethernet header \<open>H\<close> in a legally constructible field state (valid
  source and destination addresses, a member of \<^verbatim>\<open>EtherType\<close> as type), \<^verbatim>\<open>from_bytes\<close>
  called on any header with the bytes of \<open>H.to_bytes()\<close> makes that header structurally
  equal to \<open>H\<close> and returns an empty remainder. The hypothesis on the value of the
  member is the 16-bit range of the struct item \<^verbatim>\<open>H\<close>.
\<close>

theorem from_bytes_to_bytes_roundtrip:
  assumes "legal E H" and "0 \<le> ethertype H" and "ethertype H \<le> 65535"
  shows "\<exists>bs. to_bytes H = Inr bs \<and> fst (from_bytes E h bs) = Inr []
           \<and> Ethernet_eq (snd (from_bytes E h bs)) H \<and> snd (from_bytes E h bs) = H"
proof -
  let ?t = "[word_of_int (ethertype H div 256), word_of_int (ethertype H mod 256)] :: bytes"
  let ?bs = "packed (src H) @ packed (dst H) @ ?t"
  from assms(1) have ls: "length (packed (src H)) = 6" and ld: "length (packed (dst H)) = 6"
    and mem: "ethertype H \<in> set (members E)"
    by (simp_all add: legal_def valid_EthAddr_def)
  have enc: "to_bytes H = Inr ?bs"
    using assms(2,3) ls ld by (simp add: to_bytes_Inr pack_6s_id)
  have len: "14 \<le> length ?bs" using ls ld by simp
  have t: "unpack_H (drop 12 (take 14 ?bs)) = ethertype H"
    using ls ld unpack_pack_H [OF assms(2,3)] by simp
  have dec: "from_bytes E h ?bs = (Inr [], H)"
    unfolding from_bytes_long [OF len] t using mem ls ld by simp
  show ?thesis using enc dec by (simp add: Ethernet_eq_def)
qed

theorem from_bytes_to_bytes_roundtrip_witness:
  "legal EtherType_example header_example
   \<and> 0 \<le> ethertype header_example \<and> ethertype header_example \<le> 65535
   \<and> (\<exists>bs. to_bytes header_example = Inr bs
         \<and> fst (from_bytes EtherType_example header_zero bs) = Inr []
         \<and> Ethernet_eq (snd (from_bytes EtherType_example header_zero bs)) header_example
         \<and> snd (from_bytes EtherType_example header_zero bs) = header_example)"
proof -
  have l: "legal EtherType_example header_example"
    by (simp add: legal_def valid_EthAddr_def header_example_def EtherType_example_def)
  have r: "0 \<le> ethertype header_example" "ethertype header_example \<le> 65535"
    by (simp_all add: header_example_def)
  from from_bytes_to_bytes_roundtrip [OF l r, of header_zero] l r
  show ?thesis by simp
qed

section \<open>Failures of the decoder\<close>

text \<open>
  Claim C3. For every Ethernet header \<open>H\<close>, \<^verbatim>\<open>from_bytes\<close> applied to the bytes of
  \<open>H.to_bytes()\<close> without the last one fails with the exception of the length guard
  (the spec's FormatError), the size of \<open>H\<close> being positive; and \<^verbatim>\<open>from_bytes\<close> fails
  with this exception on every input shorter than 14 bytes.
\<close>

theorem from_bytes_truncated:
  assumes "0 \<le> ethertype H" and "ethertype H \<le> 65535"
  shows "(\<exists>bs. to_bytes H = Inr bs \<and> 0 < size_Ethernet H
            \<and> from_bytes E h (butlast bs) = (Inl (NotEnoughBytes 13), h))
       \<and> (\<forall>raw. length raw < 14 \<longrightarrow> from_bytes E h raw = (Inl (NotEnoughBytes (length raw)), h))"
proof -
  let ?bs = "pack_6s (packed (src H)) @ pack_6s (packed (dst H)) @
      [word_of_int (ethertype H div 256), word_of_int (ethertype H mod 256)]"
  have len: "length (butlast ?bs) = 13" by (simp add: length_pack_6s)
  have "from_bytes E h (butlast ?bs) = (Inl (NotEnoughBytes 13), h)"
    using from_bytes_short [of "butlast ?bs" E h] len by simp
  then show ?thesis
    using to_bytes_Inr [OF assms]
    by (simp add: from_bytes_short size_Ethernet_def calcsize_PACKFMT_def)
qed

theorem from_bytes_truncated_witness:
  "0 \<le> ethertype header_example \<and> ethertype header_example \<le> 65535
   \<and> to_bytes header_example =
       Inr [0, 0x1b, 0x21, 0x3a, 0x4c, 0x5d, 0xff, 0xff, 0xff, 0xff, 0xff, 0xff, 0x08, 0x06]
   \<and> from_bytes EtherType_example header_zero
        [0, 0x1b, 0x21, 0x3a, 0x4c, 0x5d, 0xff, 0xff, 0xff, 0xff, 0xff, 0xff, 0x08]
      = (Inl (NotEnoughBytes 13), header_zero)"
proof -
  have r: "0 \<le> ethertype header_example" "ethertype header_example \<le> 65535"
    by (simp_all add: header_example_def)
  have e: "to_bytes header_example =
       Inr [0, 0x1b, 0x21, 0x3a, 0x4c, 0x5d, 0xff, 0xff, 0xff, 0xff, 0xff, 0xff, 0x08, 0x06]"
    by (simp add: to_bytes_def pack_H_def pack_6s_def header_example_def)
  from from_bytes_truncated [OF r, of EtherType_example header_zero]
  show ?thesis using r e by auto
qed

text \<open>
  Claim C4, as stated: whenever \<^verbatim>\<open>from_bytes\<close> raises, the fields of the header are as
  they were before the call. It fails on an input of 14 bytes whose type field is not
  a member of \<^verbatim>\<open>EtherType\<close>: the two addresses are assigned before the setter of
  \<open>ethertype\<close> raises.
\<close>

theorem from_bytes_failure_mutates_counterexample:
  "from_bytes EtherType_example header_example raw_unknown_type =
     (Inl (ValueError 0x1234),
      \<lparr>src = EthAddr [1, 2, 3, 4, 5, 6], dst = EthAddr [7, 8, 9, 10, 11, 12], ethertype = 0x0806\<rparr>)
   \<and> src (snd (from_bytes EtherType_example header_example raw_unknown_type)) \<noteq> src header_example
   \<and> dst (snd (from_bytes EtherType_example header_example raw_unknown_type)) \<noteq> dst header_example"
  by (simp add: from_bytes_def MINSIZE_def calcsize_PACKFMT_def Let_def set_src_def
      set_dst_def set_ethertype_def EtherType_def unpack_H_def raw_unknown_type_def
      header_example_def EtherType_example_def)

text \<open>
  Claim C4, amended: whenever \<^verbatim>\<open>from_bytes\<close> raises, the field \<open>ethertype\<close> of the header
  is as it was before the call, and when the input is shorter than 14 bytes all three
  fields are.
\<close>

theorem from_bytes_failure_state:
  assumes "from_bytes E h raw = (Inl e, h')"
  shows "ethertype h' = ethertype h \<and> (length raw < 14 \<longrightarrow> h' = h)"
proof (cases "length raw < 14")
  case True
  with assms show ?thesis by (simp add: from_bytes_short)
next
  case False
  then have long: "14 \<le> length raw" by simp
  from assms show ?thesis
    unfolding from_bytes_long [OF long] using False
    by (auto split: if_splits)
qed

theorem from_bytes_failure_state_witness:
  "from_bytes EtherType_example header_example [8, 6] = (Inl (NotEnoughBytes 2), header_example)
   \<and> length [8 :: byte, 6] < 14
   \<and> from_bytes EtherType_example header_example raw_unknown_type =
       (Inl (ValueError 0x1234),
        \<lparr>src = EthAddr [1, 2, 3, 4, 5, 6], dst = EthAddr [7, 8, 9, 10, 11, 12],
         ethertype = ethertype header_example\<rparr>)"
proof -
  have f: "from_bytes EtherType_example header_example [8, 6] = (Inl (NotEnoughBytes 2), header_example)"
    by (simp add: from_bytes_def MINSIZE_def calcsize_PACKFMT_def)
  have g: "from_bytes EtherType_example header_example raw_unknown_type =
       (Inl (ValueError 0x1234),
        \<lparr>src = EthAddr [1, 2, 3, 4, 5, 6], dst = EthAddr [7, 8, 9, 10, 11, 12], ethertype = 0x0806\<rparr>)"
    by (simp add: from_bytes_def MINSIZE_def calcsize_PACKFMT_def Let_def set_src_def
      set_dst_def set_ethertype_def EtherType_def unpack_H_def raw_unknown_type_def
      header_example_def EtherType_example_def)
  from from_bytes_failure_state [OF f] from_bytes_failure_state [OF g] f g
  show ?thesis by simp
qed

text \<open>
  Claim C10. On an input of the full 14 bytes \<^verbatim>\<open>from_bytes\<close> still raises whenever the
  last two of the 14 bytes are not the value of a member of \<^verbatim>\<open>EtherType\<close>: the
  exception is the \<^verbatim>\<open>ValueError\<close> of the enumeration lookup, not the exception of the
  length guard. Such inputs exist for every enumeration of fewer than 65536 members.
\<close>

theorem from_bytes_unknown_type:
  "(14 \<le> length raw \<and> unpack_H (drop 12 (take 14 raw)) \<notin> set (members E) \<longrightarrow>
      fst (from_bytes E h raw) = Inl (ValueError (unpack_H (drop 12 (take 14 raw))))
      \<and> fst (from_bytes E h raw) \<noteq> Inl (NotEnoughBytes (length raw)))
   \<and> (length (members E) < 65536 \<longrightarrow>
        (\<exists>raw v. length raw = 14 \<and> fst (from_bytes E h raw) = Inl (ValueError v)))"
proof -
  have first: "14 \<le> length raw \<and> unpack_H (drop 12 (take 14 raw)) \<notin> set (members E) \<longrightarrow>
      fst (from_bytes E h raw) = Inl (ValueError (unpack_H (drop 12 (take 14 raw))))
      \<and> fst (from_bytes E h raw) \<noteq> Inl (NotEnoughBytes (length raw))"
  proof
    assume a: "14 \<le> length raw \<and> unpack_H (drop 12 (take 14 raw)) \<notin> set (members E)"
    then have "14 \<le> length raw" by simp
    from from_bytes_long [OF this, of E h] a
    show "fst (from_bytes E h raw) = Inl (ValueError (unpack_H (drop 12 (take 14 raw))))
        \<and> fst (from_bytes E h raw) \<noteq> Inl (NotEnoughBytes (length raw))"
      by simp
  qed
  have second: "length (members E) < 65536 \<longrightarrow>
        (\<exists>raw v. length raw = 14 \<and> fst (from_bytes E h raw) = Inl (ValueError v))"
  proof
    assume "length (members E) < 65536"
    from nonmember_exists [OF this] obtain v
      where v: "0 \<le> v" "v \<le> 65535" "v \<notin> set (members E)" by blast
    let ?raw = "replicate 12 0 @ [word_of_int (v div 256), word_of_int (v mod 256)] :: bytes"
    have len: "14 \<le> length ?raw" by simp
    have t: "unpack_H (drop 12 (take 14 ?raw)) = v"
      using unpack_pack_H [OF v(1,2)] by simp
    have "fst (from_bytes E h ?raw) = Inl (ValueError v)"
      unfolding from_bytes_long [OF len] t using v(3) by simp
    moreover have "length ?raw = 14" by simp
    ultimately show "\<exists>raw v. length raw = 14 \<and> fst (from_bytes E h raw) = Inl (ValueError v)"
      by blast
  qed
  from first second show ?thesis by (rule conjI)
qed

theorem from_bytes_unknown_type_witness:
  "14 \<le> length raw_unknown_type
   \<and> unpack_H (drop 12 (take 14 raw_unknown_type)) \<notin> set (members EtherType_example)
   \<and> length (members EtherType_example) < 65536
   \<and> fst (from_bytes EtherType_example header_example raw_unknown_type) = Inl (ValueError 0x1234)
   \<and> (\<exists>raw v. length raw = 14 \<and> fst (from_bytes EtherType_example header_example raw) = Inl (ValueError v))"
proof -
  have a: "14 \<le> length raw_unknown_type" by (simp add: raw_unknown_type_def)
  have u: "unpack_H (drop 12 (take 14 raw_unknown_type)) = 0x1234"
    by (simp add: raw_unknown_type_def unpack_H_def)
  have b: "unpack_H (drop 12 (take 14 raw_unknown_type)) \<notin> set (members EtherType_example)"
    unfolding u by (simp add: EtherType_example_def)
  have c: "length (members EtherType_example) < 65536" by (simp add: EtherType_example_def)
  from from_bytes_unknown_type [of raw_unknown_type EtherType_example header_example] a b c u
  show ?thesis by simp
qed

section \<open>The dispatch lookup\<close>

text \<open>
  Claim C5, as stated: for a header whose type is mapped to no class in
  \<^verbatim>\<open>EtherTypeClasses\<close>, \<^verbatim>\<open>next_header_class\<close> returns the terminal sentinel without
  raising and without emitting any warning. It fails at the type \<^verbatim>\<open>EtherType.IP\<close>: the
  call prints the warning.
\<close>

theorem next_header_class_terminal_warns_counterexample:
  "EtherTypeClasses EtherType_example (ethertype (header_example\<lparr>ethertype := 0x0800\<rparr>)) = Some None
   \<and> next_header_class EtherType_example (header_example\<lparr>ethertype := 0x0800\<rparr>)
       = (Inr None, [Warning_no_class 0x0800])
   \<and> snd (next_header_class EtherType_example (header_example\<lparr>ethertype := 0x0800\<rparr>)) \<noteq> []"
  by (simp add: next_header_class_def EtherTypeClasses_def EtherType_example_def header_example_def)

text \<open>
  Claim C5, amended: for a header whose type is mapped to no class in
  \<^verbatim>\<open>EtherTypeClasses\<close>, \<^verbatim>\<open>next_header_class\<close> returns the terminal sentinel \<^verbatim>\<open>None\<close>
  without raising, and prints one warning line that names the type.
\<close>

theorem next_header_class_terminal:
  assumes "EtherTypeClasses E (ethertype h) = Some None"
  shows "next_header_class E h = (Inr None, [Warning_no_class (ethertype h)])"
  using assms by (simp add: next_header_class_def)

theorem next_header_class_terminal_witness:
  "EtherTypeClasses EtherType_example (ethertype (header_zero\<lparr>ethertype := IP EtherType_example\<rparr>)) = Some None
   \<and> next_header_class EtherType_example (header_zero\<lparr>ethertype := IP EtherType_example\<rparr>)
       = (Inr None, [Warning_no_class 0x0800])"
proof -
  have t: "EtherTypeClasses EtherType_example (ethertype (header_zero\<lparr>ethertype := IP EtherType_example\<rparr>)) = Some None"
    by (simp add: EtherTypeClasses_def EtherType_example_def)
  from next_header_class_terminal [OF t] t show ?thesis
    by (simp add: EtherType_example_def)
qed

text \<open>
  Claim C6. For every header whose type has no entry at all in \<^verbatim>\<open>EtherTypeClasses\<close>,
  \<^verbatim>\<open>next_header_class\<close> raises the exception that no mapping exists (the spec's
  UnrecognizedProtocolError) and returns no value; nothing is printed.
\<close>

theorem next_header_class_unrecognized:
  assumes "ethertype h \<notin> dom (EtherTypeClasses E)"
  shows "next_header_class E h = (Inl (NoMapping (ethertype h)), [])"
  using assms by (auto simp add: next_header_class_def dom_def)

theorem next_header_class_unrecognized_witness:
  "ethertype (header_example\<lparr>ethertype := 0x86dd\<rparr>) \<in> set (members EtherType_example)
   \<and> ethertype (header_example\<lparr>ethertype := 0x86dd\<rparr>) \<notin> dom (EtherTypeClasses EtherType_example)
   \<and> next_header_class EtherType_example (header_example\<lparr>ethertype := 0x86dd\<rparr>)
       = (Inl (NoMapping 0x86dd), [])"
proof -
  have t: "ethertype (header_example\<lparr>ethertype := 0x86dd\<rparr>) \<notin> dom (EtherTypeClasses EtherType_example)"
    by (simp add: EtherTypeClasses_def EtherType_example_def)
  from next_header_class_unrecognized [OF t] t show ?thesis
    by (simp add: EtherType_example_def)
qed

section \<open>The setter of the type\<close>

text \<open>
  Claim C7. Assigning to \<open>ethertype\<close> an integer that is not the value of a member of
  \<^verbatim>\<open>EtherType\<close> fails with the \<^verbatim>\<open>ValueError\<close> of the enumeration lookup (the spec's
  DomainError) and the field keeps its previous value; assigning the value of a member
  succeeds and the field holds that member.
\<close>

theorem set_ethertype_domain:
  "(v \<notin> set (members E) \<longrightarrow> set_ethertype E h v = (Inl (ValueError v), h))
   \<and> (v \<in> set (members E) \<longrightarrow>
        set_ethertype E h v = (Inr (), h\<lparr>ethertype := v\<rparr>)
        \<and> ethertype (snd (set_ethertype E h v)) \<in> set (members E))"
  by (simp add: set_ethertype_def EtherType_def)

theorem set_ethertype_domain_witness:
  "(0x1234 \<notin> set (members EtherType_example)
     \<and> set_ethertype EtherType_example header_example 0x1234 = (Inl (ValueError 0x1234), header_example))
   \<and> (0x0800 \<in> set (members EtherType_example)
     \<and> set_ethertype EtherType_example header_example 0x0800
         = (Inr (), header_example\<lparr>ethertype := 0x0800\<rparr>))"
  using set_ethertype_domain [of "0x1234" EtherType_example header_example]
        set_ethertype_domain [of "0x0800" EtherType_example header_example]
  by (simp add: EtherType_example_def)

section \<open>The default echo request\<close>

text \<open>
  Claim C9. The ICMP-style header constructed with all default arguments (echo request:
  type 8, code 0, identifier 0, sequence 0) encodes to exactly the 8 bytes
  \<open>08 00 f7 ff 00 00 00 00\<close>, where bytes 2 and 3 are the big-endian Internet checksum
  of the encoding with a zero checksum field.
\<close>

theorem default_echo_request_bytes:
  "ICMP_to_bytes ICMP_init = [0x08, 0x00, 0xf7, 0xff, 0x00, 0x00, 0x00, 0x00]
   \<and> ICMPType_value (icmptype ICMP_init) = 8 \<and> icmpcode ICMP_init = 0
   \<and> icmpdata ICMP_init = ICMPEchoRequest 0 0 []
   \<and> be16 (checksum [0x08, 0x00, 0x00, 0x00, 0x00, 0x00, 0x00, 0x00]) = [0xf7, 0xff]"
  by (simp add: ICMP_to_bytes_def ICMP_init_def be16_def checksum_def add_carry_def)

end
